theory Spec2Isabelle
  imports Main "HOL-Library.AList"
begin

section \<open>Python values and exceptions\<close>

text \<open>
  The exceptions that the modelled code of \<^verbatim>\<open>docstring2argparse/__init__.py\<close> can raise.
  Only \<open>ValueError\<close> carries its message, because \<^verbatim>\<open>function_parser_signature._parse\<close>
  inspects it.
\<close>

datatype error =
    UnAnnotatedError | AnnotationFormatError | TypeError | ValueError string
  | AssertionError | NotImplementedError | IndexError | KeyError | AttributeError
  | RecursionError

text \<open>
  Exception classes, for \<^verbatim>\<open>except errskip\<close>. \<open>UnAnnotatedError\<close> and
  \<open>AnnotationFormatError\<close> are declared as subclasses of \<open>TypeError\<close> (lines 10 to 14).
\<close>

datatype exc_class =
    CUnAnnotatedError | CAnnotationFormatError | CTypeError | CValueError
  | CAssertionError | CNotImplementedError | CIndexError | CKeyError | CAttributeError
  | CRecursionError | CLookupError | CRuntimeError | CException | CBaseException

fun class_of :: "error \<Rightarrow> exc_class" where
  "class_of UnAnnotatedError = CUnAnnotatedError"
| "class_of AnnotationFormatError = CAnnotationFormatError"
| "class_of TypeError = CTypeError"
| "class_of (ValueError m) = CValueError"
| "class_of AssertionError = CAssertionError"
| "class_of NotImplementedError = CNotImplementedError"
| "class_of IndexError = CIndexError"
| "class_of KeyError = CKeyError"
| "class_of AttributeError = CAttributeError"
| "class_of RecursionError = CRecursionError"

text \<open>The method resolution order of each exception class: the class and its bases.\<close>

fun mro :: "exc_class \<Rightarrow> exc_class list" where
  "mro CUnAnnotatedError = [CUnAnnotatedError, CTypeError, CException, CBaseException]"
| "mro CAnnotationFormatError = [CAnnotationFormatError, CTypeError, CException, CBaseException]"
| "mro CIndexError = [CIndexError, CLookupError, CException, CBaseException]"
| "mro CKeyError = [CKeyError, CLookupError, CException, CBaseException]"
| "mro CNotImplementedError = [CNotImplementedError, CRuntimeError, CException, CBaseException]"
| "mro CRecursionError = [CRecursionError, CRuntimeError, CException, CBaseException]"
| "mro CBaseException = [CBaseException]"
| "mro CException = [CException, CBaseException]"
| "mro c = [c, CException, CBaseException]"

definition caught :: "exc_class list \<Rightarrow> error \<Rightarrow> bool" where
  "caught errskip e = list_ex (\<lambda>c. c \<in> set (mro (class_of e))) errskip"

text \<open>
  The fragment of Python objects that metadata is made of, with the behaviour of
  CPython 3.11. An annotation is
  \<^item> a class object \<open>Class name sized\<close> (\<^verbatim>\<open>int\<close>, \<^verbatim>\<open>bool\<close>, \<^verbatim>\<open>str\<close>, \<^verbatim>\<open>NoneType\<close>,
    \<^verbatim>\<open>inspect._empty\<close>, a user class, ...) whose metaclass is \<^verbatim>\<open>type\<close> and which defines no
    \<^verbatim>\<open>__class_getitem__\<close>; \<open>sized\<close> tells whether the class defines \<^verbatim>\<open>__len__\<close>;
  \<^item> a subscripted alias \<open>Alias kind args\<close>: \<^verbatim>\<open>typing.Union[...]\<close> (\<open>TypingUnion\<close>, which
    \<^verbatim>\<open>typing.Optional\<close> builds), a union written \<^verbatim>\<open>X | Y\<close> (\<open>TypesUnion\<close>, an instance of
    \<^verbatim>\<open>types.UnionType\<close>), an alias of the \<^verbatim>\<open>typing\<close> module such as \<^verbatim>\<open>typing.List[int]\<close>
    (\<open>TypingGeneric\<close>) or of a builtin class such as \<^verbatim>\<open>list[int]\<close> (\<open>BuiltinGeneric\<close>), the last
    two with the name of the origin class and whether that class defines \<^verbatim>\<open>__len__\<close>;
  \<^item> \<open>Starred a\<close>, what iterating over an alias yields: the starred \<^verbatim>\<open>*a\<close> for an alias \<open>a\<close>
    of a builtin class, \<^verbatim>\<open>typing.Unpack[a]\<close> otherwise.
  \<open>VCallable\<close> is an opaque callable, known by its identity.
\<close>

datatype alias_kind =
    TypingUnion | TypesUnion | TypingGeneric string bool | BuiltinGeneric string bool

datatype pyann = Class string bool | Alias alias_kind "pyann list" | Starred pyann

datatype pyval =
    VNone | VBool bool | VInt int | VStr string | VType pyann
  | VTuple "pyval list" | VList "pyval list" | VCallable nat

definition NoneType :: pyann where
  "NoneType = Class ''NoneType'' False"

definition bool_cls :: pyann where
  "bool_cls = Class ''bool'' False"

text \<open>\<^verbatim>\<open>inspect._empty\<close>, the marker of a missing annotation or default; it is a class.\<close>

definition empty_cls :: pyval where
  "empty_cls = VType (Class ''_empty'' False)"

definition is_union :: "alias_kind \<Rightarrow> bool" where
  "is_union k = (k = TypingUnion \<or> k = TypesUnion)"

fun is_builtin_alias :: "pyann \<Rightarrow> bool" where
  "is_builtin_alias (Alias (BuiltinGeneric c z) as) = True"
| "is_builtin_alias _ = False"

text \<open>
  Python's \<^verbatim>\<open>==\<close> on the fragment. Two unions, of either kind, are equal when their
  arguments are equal as sets; two other aliases when they are of the same kind, with
  the same origin, and their arguments are equal in order; a starred alias only equals a
  starred alias. \<^verbatim>\<open>True == 1\<close> and \<^verbatim>\<open>False == 0\<close> hold.
\<close>

fun ann_eq :: "pyann \<Rightarrow> pyann \<Rightarrow> bool" where
  "ann_eq (Class a x) (Class b y) = (a = b \<and> x = y)"
| "ann_eq (Alias p as) (Alias q bs) =
     (if is_union p \<and> is_union q
      then list_all (\<lambda>a. list_ex (\<lambda>b. ann_eq a b) bs) as \<and>
           list_all (\<lambda>b. list_ex (\<lambda>a. ann_eq a b) as) bs
      else p = q \<and> list_all2 ann_eq as bs)"
| "ann_eq (Starred a) (Starred b) = ann_eq a b"
| "ann_eq _ _ = False"

fun py_eq :: "pyval \<Rightarrow> pyval \<Rightarrow> bool" where
  "py_eq VNone VNone = True"
| "py_eq (VBool a) (VBool b) = (a = b)"
| "py_eq (VBool a) (VInt j) = ((if a then 1 else 0) = j)"
| "py_eq (VInt i) (VBool b) = (i = (if b then 1 else 0))"
| "py_eq (VInt i) (VInt j) = (i = j)"
| "py_eq (VStr s) (VStr t) = (s = t)"
| "py_eq (VType a) (VType b) = ann_eq a b"
| "py_eq (VTuple xs) (VTuple ys) = list_all2 py_eq xs ys"
| "py_eq (VList xs) (VList ys) = list_all2 py_eq xs ys"
| "py_eq (VCallable m) (VCallable n) = (m = n)"
| "py_eq _ _ = False"

text \<open>
  \<^verbatim>\<open>type(x)\<close>: the class of a value. \<^verbatim>\<open>typing.List[int]\<close> is a \<^verbatim>\<open>typing._GenericAlias\<close>,
  \<^verbatim>\<open>list[int]\<close> and the starred \<^verbatim>\<open>*list[int]\<close> are \<^verbatim>\<open>types.GenericAlias\<close>.
\<close>

datatype pytype =
    TNoneType | TBool | TInt | TStr | TType | TUnionAlias | TUnionType | TTypingAlias
  | TBuiltinAlias | TUnpackAlias | TTuple | TList | TFunction

fun type_of :: "pyval \<Rightarrow> pytype" where
  "type_of VNone = TNoneType"
| "type_of (VBool b) = TBool"
| "type_of (VInt i) = TInt"
| "type_of (VStr s) = TStr"
| "type_of (VType (Class c z)) = TType"
| "type_of (VType (Alias TypingUnion as)) = TUnionAlias"
| "type_of (VType (Alias TypesUnion as)) = TUnionType"
| "type_of (VType (Alias (TypingGeneric c z) as)) = TTypingAlias"
| "type_of (VType (Alias (BuiltinGeneric c z) as)) = TBuiltinAlias"
| "type_of (VType (Starred a)) = (if is_builtin_alias a then TBuiltinAlias else TUnpackAlias)"
| "type_of (VTuple xs) = TTuple"
| "type_of (VList xs) = TList"
| "type_of (VCallable n) = TFunction"

text \<open>
  \<^verbatim>\<open>hasattr(x,'__len__')\<close>. A class object has the attribute when the class defines the
  method (\<^verbatim>\<open>hasattr(str,'__len__')\<close> holds), and an alias of a builtin class, starred or
  not, hands the lookup on to its origin; \<^verbatim>\<open>len\<close> of a class object or of an alias raises.
  The aliases of \<^verbatim>\<open>typing\<close> and the unions do not have the attribute.
\<close>

fun has_len :: "pyval \<Rightarrow> bool" where
  "has_len (VStr s) = True"
| "has_len (VTuple xs) = True"
| "has_len (VList xs) = True"
| "has_len (VType (Class c z)) = z"
| "has_len (VType (Alias (BuiltinGeneric c z) as)) = z"
| "has_len (VType (Starred (Alias (BuiltinGeneric c z) as))) = z"
| "has_len _ = False"

fun py_len :: "pyval \<Rightarrow> error + nat" where
  "py_len (VStr s) = Inr (length s)"
| "py_len (VTuple xs) = Inr (length xs)"
| "py_len (VList xs) = Inr (length xs)"
| "py_len _ = Inl TypeError"

text \<open>
  Iteration. A string yields its characters as one-character strings. An alias of
  \<^verbatim>\<open>typing\<close> or of a builtin class yields one object, itself unpacked; a starred alias of a
  builtin class yields itself again. Classes and unions are not iterable.
\<close>

fun py_iter :: "pyval \<Rightarrow> error + pyval list" where
  "py_iter (VStr s) = Inr (map (\<lambda>c. VStr [c]) s)"
| "py_iter (VTuple xs) = Inr xs"
| "py_iter (VList xs) = Inr xs"
| "py_iter (VType (Alias (TypingGeneric c z) as)) =
     Inr [VType (Starred (Alias (TypingGeneric c z) as))]"
| "py_iter (VType (Alias (BuiltinGeneric c z) as)) =
     Inr [VType (Starred (Alias (BuiltinGeneric c z) as))]"
| "py_iter (VType (Starred a)) =
     (if is_builtin_alias a then Inr [VType (Starred a)] else Inr [VType (Starred (Starred a))])"
| "py_iter _ = Inl TypeError"

text \<open>\<^verbatim>\<open>x[i]\<close> for a non-negative constant index.\<close>

fun subscr :: "pyval \<Rightarrow> nat \<Rightarrow> error + pyval" where
  "subscr (VStr s) i = (if i < length s then Inr (VStr [s ! i]) else Inl IndexError)"
| "subscr (VTuple xs) i = (if i < length xs then Inr (xs ! i) else Inl IndexError)"
| "subscr (VList xs) i = (if i < length xs then Inr (xs ! i) else Inl IndexError)"
| "subscr _ i = Inl TypeError"

text \<open>Truth value of an object, as \<^verbatim>\<open>if\<close> and \<^verbatim>\<open>not\<close> take it.\<close>

fun truthy :: "pyval \<Rightarrow> bool" where
  "truthy VNone = False"
| "truthy (VBool b) = b"
| "truthy (VInt i) = (i \<noteq> 0)"
| "truthy (VStr s) = (s \<noteq> [])"
| "truthy (VTuple xs) = (xs \<noteq> [])"
| "truthy (VList xs) = (xs \<noteq> [])"
| "truthy _ = True"

text \<open>
  A list comprehension whose body may raise: the results in order, or the first exception.
\<close>

fun sequence :: "('e + 'a) list \<Rightarrow> 'e + 'a list" where
  "sequence [] = Inr []"
| "sequence (Inl e # rs) = Inl e"
| "sequence (Inr x # rs) = (case sequence rs of Inl e \<Rightarrow> Inl e | Inr xs \<Rightarrow> Inr (x # xs))"

text \<open>\<^verbatim>\<open>zip(*v)\<close>: the columns of the rows, up to the length of the shortest row.\<close>

definition py_zip :: "'a list list \<Rightarrow> 'a list list" where
  "py_zip rows = (case rows of [] \<Rightarrow> []
     | r # rest \<Rightarrow> map (\<lambda>i. map (\<lambda>xs. xs ! i) rows) [0..<fold min (map length rest) (length r)])"

fun elems :: "pyval \<Rightarrow> pyval list" where
  "elems (VStr s) = map (\<lambda>c. VStr [c]) s"
| "elems (VTuple xs) = xs"
| "elems (VList xs) = xs"
| "elems _ = []"

section \<open>The merger: \<^verbatim>\<open>function_parser_union.union\<close>\<close>

text \<open>
  \<^verbatim>\<open>type(v1[0])(...)\<close> at line 196 rebuilds a tuple or a list from the merged elements. For
  strings it is \<^verbatim>\<open>str\<close> of a list, the builtin that prints the list; it is the parameter
  \<open>str_of\<close>. Other types do not reach it, since \<^verbatim>\<open>len\<close> has raised for them.
\<close>

fun rebuild :: "(pyval list \<Rightarrow> string) \<Rightarrow> pytype \<Rightarrow> pyval list \<Rightarrow> pyval" where
  "rebuild str_of TTuple rs = VTuple rs"
| "rebuild str_of TStr rs = VStr (str_of rs)"
| "rebuild str_of t rs = VList rs"

text \<open>
  \<^verbatim>\<open>union\<close> (lines 175 to 196). The first argument stands for the builtin \<^verbatim>\<open>str\<close> on lists,
  the second is the recursion depth the interpreter still allows: a call beyond it raises
  \<open>RecursionError\<close>. Once \<^verbatim>\<open>len(v1[0])\<close> has returned, every value of \<open>v1\<close> is a string, a
  tuple or a list, so the later calls of \<^verbatim>\<open>len\<close> do not raise.
\<close>

fun union :: "(pyval list \<Rightarrow> string) \<Rightarrow> nat \<Rightarrow> pyval list \<Rightarrow> error + pyval" where
  "union str_of 0 val = Inl RecursionError"
| "union str_of (Suc n) val =
     (let v1 = filter (\<lambda>x. x \<noteq> VNone) val in
      if length v1 = 0 then Inr VNone
      else if length v1 = 1 then Inr (hd v1)
      else if \<not> list_all (\<lambda>x. type_of x = type_of (hd v1)) (tl v1) then Inl AssertionError
      else if list_all (\<lambda>x. py_eq x (hd v1)) (tl v1) then Inr (hd v1)
      else if \<not> list_all has_len v1 then Inl AssertionError
      else (case py_len (hd v1) of
              Inl e \<Rightarrow> Inl e
            | Inr t1 \<Rightarrow>
                if \<not> list_all (\<lambda>x. py_len x = Inr t1) (tl v1)
                then Inl (ValueError ''Union failed with different parameter counts.'')
                else (case sequence (map (union str_of n) (py_zip (map elems v1))) of
                        Inl e \<Rightarrow> Inl e
                      | Inr rs \<Rightarrow> Inr (rebuild str_of (type_of (hd v1)) rs))))"


section \<open>The shared format check: \<^verbatim>\<open>function_parser_base.check\<close>\<close>

definition is_str_or_none :: "pyval \<Rightarrow> bool" where
  "is_str_or_none v = (type_of v = TStr \<or> v = VNone)"

text \<open>
  The test on \<^verbatim>\<open>x[3]\<close> at line 51. In Python \<^verbatim>\<open>and\<close> binds tighter than \<^verbatim>\<open>or\<close>, so
  \<^verbatim>\<open>x[3][0] is None or isinstance(x[3][0],bool) and (x[3][1] is None or x[3][0] is True)\<close>
  accepts every pair whose first component is \<^verbatim>\<open>None\<close>.
\<close>

definition optionality_ok :: "pyval \<Rightarrow> bool" where
  "optionality_ok v =
     ((case v of
         VTuple ys \<Rightarrow> length ys = 2 \<and>
           (ys ! 0 = VNone \<or> (type_of (ys ! 0) = TBool \<and> (ys ! 1 = VNone \<or> ys ! 0 = VBool True)))
       | _ \<Rightarrow> False)
      \<or> v = VNone)"

definition param_ok :: "pyval \<Rightarrow> bool" where
  "param_ok x =
     (x = VNone \<or>
      (case x of
         VTuple xs \<Rightarrow> length xs = 4 \<and> is_str_or_none (xs ! 0) \<and> is_str_or_none (xs ! 2) \<and>
           optionality_ok (xs ! 3)
       | _ \<Rightarrow> False))"

definition return_single_ok :: "pyval \<Rightarrow> bool" where
  "return_single_ok v =
     (case v of
        VTuple xs \<Rightarrow> length xs = 3 \<and> is_str_or_none (xs ! 0) \<and> is_str_or_none (xs ! 2)
      | _ \<Rightarrow> False)"

definition return_elem_ok :: "pyval \<Rightarrow> bool" where
  "return_elem_ok x =
     (x = VNone \<or>
      (case x of
         VTuple xs \<Rightarrow> (length xs = 3 \<or> length xs = 4) \<and> is_str_or_none (xs ! 0) \<and>
           is_str_or_none (xs ! 2)
       | _ \<Rightarrow> False))"

text \<open>
  \<^verbatim>\<open>check\<close> (lines 46 to 57). The name of the function only goes into the messages. After
  \<^verbatim>\<open>len(ans)==4\<close> the four components exist, so the subscripts cannot raise; the last
  \<^verbatim>\<open>all(...)\<close> iterates \<^verbatim>\<open>ans[3]\<close>, which raises for a value that is not iterable.
\<close>

definition check :: "pyval \<Rightarrow> error + pyval" where
  "check ans =
     (case py_len ans of
        Inl e \<Rightarrow> Inl e
      | Inr n \<Rightarrow>
          if n \<noteq> 4 then Inl AssertionError
          else let a = elems ans in
            if \<not> is_str_or_none (a ! 0) then Inl AssertionError
            else if \<not> is_str_or_none (a ! 1) then Inl AssertionError
            else if \<not> (type_of (a ! 2) = TList \<or> a ! 2 = VNone) then Inl AssertionError
            else if a ! 2 \<noteq> VNone \<and> \<not> list_all param_ok (elems (a ! 2))
              then Inl AnnotationFormatError
            else if py_eq (a ! 3) empty_cls then Inl UnAnnotatedError
            else if a ! 3 = VNone \<or> return_single_ok (a ! 3) then Inr ans
            else (case py_iter (a ! 3) of
                    Inl e \<Rightarrow> Inl e
                  | Inr xs \<Rightarrow>
                      if list_all return_elem_ok xs then Inr ans else Inl AnnotationFormatError))"

section \<open>The signature extractor\<close>

text \<open>
  What \<^verbatim>\<open>inspect.signature\<close> reports: the parameters in declaration order, each with its
  annotation and default (\<^verbatim>\<open>inspect._empty\<close> where the declaration has none), and the
  return annotation; or the exception it raises.
\<close>

record parameter =
  annotation :: pyval
  default_value :: pyval

record signature =
  parameters :: "(string \<times> parameter) list"
  return_annotation :: pyval

record pyfunc =
  signature_of :: "error + signature"
  doc :: "string option"

definition startswith :: "string \<Rightarrow> string \<Rightarrow> bool" where
  "startswith s p = (take (length p) s = p)"

definition signature_entry :: "string \<times> parameter \<Rightarrow> pyval" where
  "signature_entry = (\<lambda>(x, y).
     VTuple [VStr x, annotation y, VNone,
       if \<not> py_eq (default_value y) empty_cls then VTuple [VBool True, default_value y]
       else VTuple [VBool False, VNone]])"

text \<open>\<^verbatim>\<open>function_parser_signature._parse\<close> (lines 85 to 98).\<close>

definition signature_parse :: "pyfunc \<Rightarrow> error + pyval" where
  "signature_parse func =
     (case signature_of func of
        Inl (ValueError m) \<Rightarrow>
          if startswith m ''no signature found for builtin'' then Inl UnAnnotatedError
          else Inl (ValueError m)
      | Inl e \<Rightarrow> Inl e
      | Inr t2 \<Rightarrow>
          let t3 = (if return_annotation t2 = VNone \<or> type_of (return_annotation t2) = TTuple
                       \<or> type_of (return_annotation t2) = TList
                    then return_annotation t2
                    else VTuple [VNone, return_annotation t2, VNone])
          in Inr (VList [VNone, VNone, VList (map signature_entry (parameters t2)), t3]))"

section \<open>The documentation extractor\<close>

text \<open>
  A node of the document that \<^verbatim>\<open>docutils\<close> builds: its tag, its \<^verbatim>\<open>names\<close> attribute, the
  text \<^verbatim>\<open>astext()\<close> gives for it, and its children. The parser itself is outside the
  repository; \<open>rst\<close> below stands for \<^verbatim>\<open>_parse_rst(dedent(...))\<close> and gives the children of
  the document.
\<close>

datatype node = Node (tagname: string) (names: "string list") (astext: string) (children: "node list")

definition is_space :: "char \<Rightarrow> bool" where
  "is_space c = (c \<in> set [CHR '' '', CHR 0x09, CHR 0x0A, CHR 0x0B, CHR 0x0C, CHR 0x0D,
     CHR 0x1C, CHR 0x1D, CHR 0x1E, CHR 0x1F])"

text \<open>\<^verbatim>\<open>str.strip()\<close> and \<^verbatim>\<open>str.split(':')\<close>, on ASCII text.\<close>

definition strip :: "string \<Rightarrow> string" where
  "strip s = rev (dropWhile is_space (rev (dropWhile is_space s)))"

fun split :: "char \<Rightarrow> string \<Rightarrow> string list" where
  "split sep [] = [[]]"
| "split sep (c # cs) =
     (if c = sep then [] # split sep cs
      else (case split sep cs of [] \<Rightarrow> [[c]] | w # ws \<Rightarrow> (c # w) # ws))"

text \<open>\<^verbatim>\<open>Element.astext()\<close> of the document: the texts of the children, two newlines between.\<close>

fun document_astext :: "node list \<Rightarrow> string" where
  "document_astext [] = []"
| "document_astext [x] = astext x"
| "document_astext (x # xs) = astext x @ [CHR 0x0A, CHR 0x0A] @ document_astext xs"

text \<open>A \<^verbatim>\<open>filter\<close> whose predicate may raise.\<close>

fun filter_raise :: "('a \<Rightarrow> error + bool) \<Rightarrow> 'a list \<Rightarrow> error + 'a list" where
  "filter_raise P [] = Inr []"
| "filter_raise P (x # xs) =
     (case P x of
        Inl e \<Rightarrow> Inl e
      | Inr b \<Rightarrow> (case filter_raise P xs of
                   Inl e \<Rightarrow> Inl e
                 | Inr ys \<Rightarrow> Inr (if b then x # ys else ys)))"

text \<open>\<^verbatim>\<open>y.tagname=='section' and y['names'][0]==x\<close>, and the same with \<^verbatim>\<open>in\<close> (line 133).\<close>

definition section_named :: "string \<Rightarrow> node \<Rightarrow> error + bool" where
  "section_named x y =
     (if tagname y \<noteq> ''section'' then Inr False
      else (case names y of [] \<Rightarrow> Inl IndexError | n # ns \<Rightarrow> Inr (n = x)))"

definition section_among :: "string list \<Rightarrow> node \<Rightarrow> error + bool" where
  "section_among xs y =
     (if tagname y \<noteq> ''section'' then Inr False
      else (case names y of [] \<Rightarrow> Inl IndexError | n # ns \<Rightarrow> Inr (n \<in> set xs)))"

text \<open>The last child with the tag, as the dictionary \<^verbatim>\<open>{y.tagname:y for y in x}\<close> keeps it.\<close>

definition child_text :: "node \<Rightarrow> string \<Rightarrow> string" where
  "child_text x t = strip (astext (last (filter (\<lambda>y. tagname y = t) (children x))))"

definition has_child :: "node \<Rightarrow> string \<Rightarrow> bool" where
  "has_child x t = list_ex (\<lambda>y. tagname y = t) (children x)"

text \<open>Lines 163 and 164: one entry of the parameter list, from the term and the definition.\<close>

definition docstring_entry :: "string \<Rightarrow> string \<Rightarrow> pyval" where
  "docstring_entry term defn =
     (let x0 = strip (split (CHR '':'') term ! 0); x1 = strip (split (CHR '':'') term ! 1)
      in if length x1 > 0 then VTuple [VStr x0, VStr x1, VStr defn, VNone]
         else VTuple [VStr x0, VNone, VStr defn, VNone])"

text \<open>Lines 153 to 165 for the section \<^verbatim>\<open>parameters\<close>.\<close>

definition parse_parameters :: "node \<Rightarrow> error + pyval" where
  "parse_parameters d =
     (if map tagname (children d) \<noteq> [''title'', ''definition_list''] then Inl AssertionError
      else let items = children (children d ! 1) in
        if \<not> list_all (\<lambda>x. tagname x = ''definition_list_item'') items then Inl AssertionError
        else if \<not> list_all (\<lambda>x. has_child x ''term'' \<and> has_child x ''definition'') items
          then Inl AssertionError
        else if \<not> list_all (\<lambda>x. length (split (CHR '':'') (child_text x ''term'')) = 2) items
          then Inl AssertionError
        else Inr (VList (map (\<lambda>x. docstring_entry (child_text x ''term'')
                                   (child_text x ''definition'')) items)))"

definition none_if_empty :: "string \<Rightarrow> pyval" where
  "none_if_empty s = (if length s = 0 then VNone else VStr s)"

text \<open>
  \<^verbatim>\<open>function_parser_docstring_numpy._parse\<close> (lines 117 to 166). \<^verbatim>\<open>dedent(None)\<close> raises
  \<open>TypeError\<close>. \<open>ps\<close> and \<open>rs\<close> are the values of \<^verbatim>\<open>secs\<close> for the two keys; a key is in
  \<^verbatim>\<open>secs\<close> after line 130 when its list is not empty.
\<close>

definition docstring_parse :: "(string \<Rightarrow> node list) \<Rightarrow> pyfunc \<Rightarrow> error + pyval" where
  "docstring_parse rst func =
     (case doc func of
        None \<Rightarrow> Inl TypeError
      | Some text \<Rightarrow>
          let d = rst text in
          (case filter_raise (section_named ''parameters'') d of
             Inl e \<Rightarrow> Inl e
           | Inr ps \<Rightarrow>
          (case filter_raise (section_named ''results'') d of
             Inl e \<Rightarrow> Inl e
           | Inr rs \<Rightarrow>
          if \<not> ((ps = [] \<or> length ps = 1) \<and> (rs = [] \<or> length rs = 1)) then Inl AssertionError
          else
          (case filter_raise (section_among ((if ps = [] then [] else [''parameters'']) @
                   (if rs = [] then [] else [''results'']) @ [''yields'', ''receives''])) d of
             Inl e \<Rightarrow> Inl e
           | Inr t1 \<Rightarrow>
          let d1 = fold remove1 t1 d;
              paragraphs = filter (\<lambda>x. tagname x = ''paragraph'') d1;
              ans0 = (if length paragraphs > 0 then none_if_empty (strip (astext (hd paragraphs)))
                      else VNone);
              d2 = (if length paragraphs > 0 then remove1 (hd paragraphs) d1 else d1);
              ans1 = none_if_empty (strip (document_astext d2))
          in
          (case (if ps = [] then Inr VNone else parse_parameters (hd ps)) of
             Inl e \<Rightarrow> Inl e
           | Inr ans2 \<Rightarrow>
          if rs \<noteq> [] then Inl NotImplementedError
          else Inr (VList [ans0, ans1, ans2, VNone]))))))"

section \<open>Parsers, and the discovery of functions\<close>

datatype parser = SignatureParser | DocstringParser | UnionParser "parser list"

text \<open>
  What the code takes from outside the repository: the document parser and the builtin
  \<^verbatim>\<open>str\<close> on lists.
\<close>

record externals =
  rst :: "string \<Rightarrow> node list"
  str_of :: "pyval list \<Rightarrow> string"

text \<open>
  \<^verbatim>\<open>function_parser_base.parse\<close>: \<^verbatim>\<open>_parse\<close> of the class, then \<^verbatim>\<open>check\<close>. For a union,
  \<^verbatim>\<open>_parse\<close> (lines 197 to 199) parses with every parser in order and merges the results.
\<close>

fun parse :: "externals \<Rightarrow> nat \<Rightarrow> parser \<Rightarrow> pyfunc \<Rightarrow> error + pyval" where
  "parse ex n SignatureParser func =
     (case signature_parse func of Inl e \<Rightarrow> Inl e | Inr ans \<Rightarrow> check ans)"
| "parse ex n DocstringParser func =
     (case docstring_parse (rst ex) func of Inl e \<Rightarrow> Inl e | Inr ans \<Rightarrow> check ans)"
| "parse ex n (UnionParser parsers) func =
     (case sequence (map (\<lambda>x. parse ex n x func) parsers) of
        Inl e \<Rightarrow> Inl e
      | Inr ans \<Rightarrow> (case union (str_of ex) n ans of Inl e \<Rightarrow> Inl e | Inr r \<Rightarrow> check r))"

text \<open>The parser that \<^verbatim>\<open>docstringrunner\<close> builds (line 353).\<close>

definition parser_func :: parser where
  "parser_func = UnionParser [SignatureParser, DocstringParser]"

text \<open>
  Lines 243 to 251 of \<^verbatim>\<open>get_functions_raw\<close>, over the functions found (\<^verbatim>\<open>ans.items()\<close>):
  with an empty \<^verbatim>\<open>errskip\<close> every exception propagates, otherwise a function whose parse
  raises an exception of a listed class is left out.
\<close>

fun parse_skipping ::
  "externals \<Rightarrow> nat \<Rightarrow> parser \<Rightarrow> exc_class list \<Rightarrow> (string \<times> pyfunc) list \<Rightarrow>
   error + (string \<times> pyfunc \<times> pyval) list" where
  "parse_skipping ex n p errskip [] = Inr []"
| "parse_skipping ex n p errskip ((x, y) # rest) =
     (case parse ex n p y of
        Inl e \<Rightarrow> if caught errskip e then parse_skipping ex n p errskip rest else Inl e
      | Inr m \<Rightarrow> (case parse_skipping ex n p errskip rest of
                   Inl e \<Rightarrow> Inl e
                 | Inr fs \<Rightarrow> Inr ((x, y, m) # fs)))"

definition get_functions ::
  "externals \<Rightarrow> nat \<Rightarrow> parser \<Rightarrow> exc_class list \<Rightarrow> (string \<times> pyfunc) list \<Rightarrow>
   error + (string \<times> pyfunc \<times> pyval) list" where
  "get_functions ex n p errskip ans =
     (if length errskip = 0
      then sequence (map (\<lambda>(x, y). case parse ex n p y of Inl e \<Rightarrow> Inl e | Inr m \<Rightarrow> Inr (x, y, m)) ans)
      else parse_skipping ex n p errskip ans)"

section \<open>Type resolution and the command-tree builder\<close>

text \<open>
  \<^verbatim>\<open>typing.get_origin\<close> and \<^verbatim>\<open>typing.get_args\<close>. The origin of \<^verbatim>\<open>typing.Union[...]\<close> is the
  special form \<^verbatim>\<open>typing.Union\<close>, that of \<^verbatim>\<open>X | Y\<close> is the class \<^verbatim>\<open>types.UnionType\<close>, which
  is not equal to \<^verbatim>\<open>typing.Union\<close>; that of \<^verbatim>\<open>typing.Unpack[a]\<close> is \<^verbatim>\<open>typing.Unpack\<close>.
\<close>

datatype origin = UnionForm | UnpackForm | OriginClass string bool

fun get_origin :: "pyval \<Rightarrow> origin option" where
  "get_origin (VType (Alias TypingUnion as)) = Some UnionForm"
| "get_origin (VType (Alias TypesUnion as)) = Some (OriginClass ''UnionType'' False)"
| "get_origin (VType (Alias (TypingGeneric c z) as)) = Some (OriginClass c z)"
| "get_origin (VType (Alias (BuiltinGeneric c z) as)) = Some (OriginClass c z)"
| "get_origin (VType (Starred (Alias (BuiltinGeneric c z) as))) = Some (OriginClass c z)"
| "get_origin (VType (Starred a)) = Some UnpackForm"
| "get_origin _ = None"

fun get_args :: "pyval \<Rightarrow> pyann list" where
  "get_args (VType (Alias k as)) = as"
| "get_args (VType (Starred (Alias (BuiltinGeneric c z) as))) = as"
| "get_args (VType (Starred a)) = [a]"
| "get_args _ = []"

text \<open>
  \<^verbatim>\<open>totype\<close> (lines 259 to 270). \<^verbatim>\<open>isinstance(t,type)\<close> holds for the class objects.
\<close>

definition totype :: "pyval \<Rightarrow> error + pyval" where
  "totype t =
     (if type_of t = TType then Inr t
      else let t1 = (get_origin t, get_args t) in
        if fst t1 = Some UnionForm \<and> length (snd t1) = 2 \<and>
           length (filter (\<lambda>x. ann_eq x NoneType) (snd t1)) = 1
        then (case filter (\<lambda>x. \<not> ann_eq x NoneType) (snd t1) of
                [] \<Rightarrow> Inl IndexError
              | x # xs \<Rightarrow> Inr (VType x))
        else Inl TypeError)"

text \<open>
  One call of \<^verbatim>\<open>add_argument\<close>: the name or flag, and the keyword arguments \<^verbatim>\<open>type\<close>,
  \<^verbatim>\<open>help\<close>, \<^verbatim>\<open>default\<close> and \<^verbatim>\<open>action\<close> (\<open>None\<close> for a keyword the call does not pass).
\<close>

datatype action = store | store_true

record argument =
  arg_name :: string
  arg_type :: "pyval option"
  arg_help :: pyval
  arg_default :: "pyval option"
  arg_action :: action

definition and_then :: "error + 'a \<Rightarrow> ('a \<Rightarrow> error + 'b) \<Rightarrow> error + 'b" where
  "and_then m f = (case m of Inl e \<Rightarrow> Inl e | Inr x \<Rightarrow> f x)"

text \<open>\<^verbatim>\<open>'--'+x\<close>: concatenation with a string; another operand raises \<open>TypeError\<close>.\<close>

definition dashes :: "pyval \<Rightarrow> error + string" where
  "dashes x = (case x of VStr s \<Rightarrow> Inr (''--'' @ s) | _ \<Rightarrow> Inl TypeError)"

text \<open>
  The name of a positional argument goes to \<^verbatim>\<open>argparse\<close> as it is; \<^verbatim>\<open>add_argument\<close> reads
  its first character, which raises for a value that is not a string.
\<close>

definition positional_name :: "pyval \<Rightarrow> error + string" where
  "positional_name x = (case x of VStr s \<Rightarrow> Inr s | _ \<Rightarrow> Inl TypeError)"

text \<open>The body of the loop over \<^verbatim>\<open>p0[2]\<close> in \<^verbatim>\<open>docstringparser\<close> (lines 332 to 342).\<close>

definition declare_argument :: "pyval \<Rightarrow> error + argument" where
  "declare_argument xj =
     and_then (subscr xj 3) (\<lambda>x3. and_then (subscr x3 0) (\<lambda>opt.
       if truthy opt then
         and_then (subscr xj 1) (\<lambda>x1. and_then (totype x1) (\<lambda>ttype.
           if py_eq ttype (VType bool_cls) then
             and_then (subscr xj 0) (\<lambda>x0. and_then (dashes x0) (\<lambda>flag. and_then (subscr xj 2) (\<lambda>x2.
               Inr \<lparr>arg_name = flag, arg_type = None, arg_help = x2,
                    arg_default = Some (VBool False), arg_action = store_true\<rparr>)))
           else
             and_then (subscr xj 0) (\<lambda>x0. and_then (dashes x0) (\<lambda>flag. and_then (subscr xj 2) (\<lambda>x2.
               and_then (subscr x3 1) (\<lambda>dflt.
                 Inr \<lparr>arg_name = flag, arg_type = Some ttype, arg_help = x2,
                      arg_default = Some dflt, arg_action = store\<rparr>))))))
       else
         and_then (subscr xj 0) (\<lambda>x0. and_then (subscr xj 1) (\<lambda>x1. and_then (totype x1) (\<lambda>ttype.
           and_then (subscr xj 2) (\<lambda>x2. and_then (positional_name x0) (\<lambda>name.
             Inr \<lparr>arg_name = name, arg_type = Some ttype, arg_help = x2,
                  arg_default = None, arg_action = store\<rparr>)))))))"

definition declare_arguments :: "pyval \<Rightarrow> error + argument list" where
  "declare_arguments p02 = and_then (py_iter p02) (\<lambda>xs. sequence (map declare_argument xs))"

section \<open>Dispatch: \<^verbatim>\<open>run_args\<close>\<close>

text \<open>
  The parsed arguments are a namespace, a map from attribute names to values; \<open>funcs\<close> is
  the dictionary from qualified names to pairs of the callable and its metadata. \<open>call\<close>
  stands for the interpreter applying a callable to positional and keyword arguments.
\<close>

definition getattr :: "(string \<rightharpoonup> pyval) \<Rightarrow> pyval \<Rightarrow> error + pyval" where
  "getattr args x =
     (case x of
        VStr s \<Rightarrow> (case args s of None \<Rightarrow> Inl AttributeError | Some v \<Rightarrow> Inr v)
      | _ \<Rightarrow> Inl TypeError)"

text \<open>
  A dictionary key is hashed first: a list, or a tuple that holds one, raises \<open>TypeError\<close>.
  The keys of \<open>funcs\<close> are strings, so no other key is found.
\<close>

fun hashable :: "pyval \<Rightarrow> bool" where
  "hashable (VList xs) = False"
| "hashable (VTuple xs) = list_all hashable xs"
| "hashable v = True"

definition getitem :: "(string \<rightharpoonup> pyval) \<Rightarrow> pyval \<Rightarrow> error + pyval" where
  "getitem funcs k =
     (case k of
        VStr s \<Rightarrow> (case funcs s of None \<Rightarrow> Inl KeyError | Some v \<Rightarrow> Inr v)
      | _ \<Rightarrow> if hashable k then Inl KeyError else Inl TypeError)"

text \<open>\<^verbatim>\<open>funcs[args._fullname][1][2]\<close>, iterated.\<close>

definition dispatch_parameters :: "(string \<rightharpoonup> pyval) \<Rightarrow> (string \<rightharpoonup> pyval) \<Rightarrow> error + pyval list" where
  "dispatch_parameters funcs args =
     and_then (getattr args (VStr ''_fullname'')) (\<lambda>k. and_then (getitem funcs k) (\<lambda>entry.
       and_then (subscr entry 1) (\<lambda>m. and_then (subscr m 2) py_iter)))"

definition is_optional :: "pyval \<Rightarrow> error + bool" where
  "is_optional x = and_then (subscr x 3) (\<lambda>x3. and_then (subscr x3 0) (\<lambda>opt. Inr (truthy opt)))"

text \<open>Line 347: the list of positional arguments.\<close>

fun positionals :: "(string \<rightharpoonup> pyval) \<Rightarrow> pyval list \<Rightarrow> error + pyval list" where
  "positionals args [] = Inr []"
| "positionals args (x # xs) =
     and_then (is_optional x) (\<lambda>opt.
       if \<not> opt then
         and_then (subscr x 0) (\<lambda>x0. and_then (getattr args x0) (\<lambda>v.
           and_then (positionals args xs) (\<lambda>vs. Inr (v # vs))))
       else positionals args xs)"

text \<open>
  Line 348: the dictionary of keyword arguments, in insertion order; a key met again keeps
  its place and takes the new value.
\<close>

fun keyword_args ::
  "(string \<rightharpoonup> pyval) \<Rightarrow> pyval list \<Rightarrow> (string \<times> pyval) list \<Rightarrow> error + (string \<times> pyval) list" where
  "keyword_args args [] ka = Inr ka"
| "keyword_args args (x # xs) ka =
     and_then (is_optional x) (\<lambda>opt.
       if opt then
         and_then (subscr x 0) (\<lambda>x0. and_then (getattr args x0) (\<lambda>v.
           (case x0 of VStr s \<Rightarrow> keyword_args args xs (AList.update s v ka) | _ \<Rightarrow> Inl TypeError)))
       else keyword_args args xs ka)"

text \<open>\<^verbatim>\<open>run_args\<close> (lines 346 to 349).\<close>

definition run_args ::
  "(nat \<Rightarrow> pyval list \<Rightarrow> (string \<times> pyval) list \<Rightarrow> error + pyval) \<Rightarrow>
   (string \<rightharpoonup> pyval) \<Rightarrow> (string \<rightharpoonup> pyval) \<Rightarrow> error + pyval" where
  "run_args call funcs args =
     and_then (and_then (dispatch_parameters funcs args) (positionals args)) (\<lambda>a.
       and_then (and_then (dispatch_parameters funcs args) (\<lambda>xs. keyword_args args xs [])) (\<lambda>ka.
         and_then (getattr args (VStr ''_func'')) (\<lambda>f.
           (case f of VCallable c \<Rightarrow> call c a ka | _ \<Rightarrow> Inl TypeError))))"

text \<open>
  A well-formed parameter entry of the metadata, \<^verbatim>\<open>(name, type, description, (optional,
  default))\<close>, built from its five parts, and its optionality; the statement about
  \<^verbatim>\<open>run_args\<close> is over lists of such entries.
\<close>

definition entry_of :: "string \<times> pyval \<times> pyval \<times> bool \<times> pyval \<Rightarrow> pyval" where
  "entry_of = (\<lambda>(name, ty, de, opt, dflt). VTuple [VStr name, ty, de, VTuple [VBool opt, dflt]])"

definition entry_optional :: "string \<times> pyval \<times> pyval \<times> bool \<times> pyval \<Rightarrow> bool" where
  "entry_optional = (\<lambda>(name, ty, de, opt, dflt). opt)"

section \<open>Basic facts\<close>

lemma ann_eq_refl: "ann_eq a a"
  by (induction a) (auto simp: list_all_iff list_ex_iff list_all2_same)

lemma py_eq_refl: "py_eq a a"
  by (induction a) (auto simp: ann_eq_refl list_all2_same)

lemma ann_eq_NoneType: "ann_eq x NoneType = (x = NoneType)"
  by (cases x) (auto simp: NoneType_def)

lemma ann_eq_Class: "ann_eq x (Class c z) = (x = Class c z)"
  by (cases x) auto

lemma py_eq_VType_Class: "py_eq v (VType (Class c z)) = (v = VType (Class c z))"
  by (cases v) (auto simp: ann_eq_Class)

lemma py_iter_error: "py_iter v = Inl e \<Longrightarrow> e = TypeError"
  by (induction v rule: py_iter.induct) (auto split: if_splits)

lemma sequence_Inl:
  "x \<in> set xs \<Longrightarrow> f x = Inl e \<Longrightarrow> \<exists>e'. sequence (map f xs) = Inl e'"
proof (induction xs)
  case Nil
  then show ?case by simp
next
  case (Cons a xs)
  then show ?case
    by (cases "f a") (auto split: sum.splits)
qed

lemma py_eq_empty_cls: "py_eq d empty_cls = (d = empty_cls)"
  by (simp add: empty_cls_def py_eq_VType_Class)

lemma and_then_Inr [simp]: "and_then (Inr x) f = f x"
  by (simp add: and_then_def)

lemma and_then_Inl [simp]: "and_then (Inl e) f = Inl e"
  by (simp add: and_then_def)

section \<open>The merger returns a value that only one side gives, and a value both sides give\<close>

lemma union_pair_none_right: "0 < n \<Longrightarrow> union R n [A, VNone] = Inr A"
  by (cases n) auto

lemma union_pair_none_left: "0 < n \<Longrightarrow> union R n [VNone, A] = Inr A"
  by (cases n) auto

lemma union_pair_same: "0 < n \<Longrightarrow> union R n [A, A] = Inr A"
  by (cases n) (auto simp: py_eq_refl)

text \<open>
  Claim C3. For every metadata value \<open>A\<close>, \<^verbatim>\<open>union\<close> applied to \<^verbatim>\<open>[A, None]\<close>, to \<^verbatim>\<open>[None, A]\<close>
  and to \<^verbatim>\<open>[A, A]\<close> returns \<open>A\<close>, whatever the builtin \<^verbatim>\<open>str\<close> does, as soon as the
  interpreter allows the one call (\<open>0 < n\<close>).
\<close>

theorem union_idempotent_commutative:
  "0 < n \<Longrightarrow>
     union R n [A, VNone] = Inr A \<and> union R n [VNone, A] = Inr A \<and> union R n [A, A] = Inr A"
  by (simp add: union_pair_none_right union_pair_none_left union_pair_same)

theorem union_idempotent_commutative_witness:
  "(0::nat) < 1 \<and>
   union (\<lambda>rs. []) 1 [VTuple [VStr ''x'', VNone], VNone] = Inr (VTuple [VStr ''x'', VNone]) \<and>
   union (\<lambda>rs. []) 1 [VNone, VTuple [VStr ''x'', VNone]] = Inr (VTuple [VStr ''x'', VNone]) \<and>
   union (\<lambda>rs. []) 1 [VTuple [VStr ''x'', VNone], VTuple [VStr ''x'', VNone]]
     = Inr (VTuple [VStr ''x'', VNone])"
proof -
  have h: "(0::nat) < 1" by simp
  show ?thesis
    using h union_idempotent_commutative [OF h, of "\<lambda>rs. []" "VTuple [VStr ''x'', VNone]"]
    by blast
qed

section \<open>Type resolution\<close>

lemma totype_alias_two:
  "totype (VType (Alias k [a, b])) =
     (if k = TypingUnion \<and> a = NoneType \<and> b \<noteq> NoneType then Inr (VType b)
      else if k = TypingUnion \<and> a \<noteq> NoneType \<and> b = NoneType then Inr (VType a)
      else Inl TypeError)"
  by (cases k) (auto simp: totype_def ann_eq_NoneType)

lemma totype_alias_not_two:
  "length as \<noteq> 2 \<Longrightarrow> totype (VType (Alias k as)) = Inl TypeError"
  by (cases k) (auto simp: totype_def)

lemma totype_other:
  assumes "\<not> (k = TypingUnion \<and> (\<exists>T. T \<noteq> NoneType \<and> (as = [T, NoneType] \<or> as = [NoneType, T])))"
  shows "totype (VType (Alias k as)) = Inl TypeError"
proof (cases "length as = 2")
  case False
  then show ?thesis by (rule totype_alias_not_two)
next
  case True
  then obtain a b where ab: "as = [a, b]"
    by (auto simp: length_Suc_conv numeral_2_eq_2)
  with assms show ?thesis
    by (auto simp: totype_alias_two)
qed

lemma get_origin_starred: "get_origin (VType (Starred a)) \<noteq> Some UnionForm"
  by (induction "VType (Starred a)" rule: get_origin.induct) auto

lemma totype_starred: "totype (VType (Starred a)) = Inl TypeError"
  using get_origin_starred [of a] by (simp add: totype_def)

text \<open>
  Claim C5, amended. \<^verbatim>\<open>totype\<close> returns a plain type (a class object) unchanged; it returns
  \<open>T\<close> for the two-armed \<^verbatim>\<open>typing.Union\<close> of \<open>T\<close> and the null type (\<^verbatim>\<open>typing.Optional[T]\<close>), in
  either order; and it fails with \<open>TypeError\<close> for every other compound type: a union
  written \<^verbatim>\<open>T | None\<close>, whose origin is \<^verbatim>\<open>types.UnionType\<close>, an alias with another origin,
  a union with another number of arms or with two arms of which not exactly one is the
  null type, and an unpacked alias.
\<close>

theorem totype_resolution:
  "totype (VType (Class c z)) = Inr (VType (Class c z)) \<and>
   (T \<noteq> NoneType \<longrightarrow>
      totype (VType (Alias TypingUnion [T, NoneType])) = Inr (VType T) \<and>
      totype (VType (Alias TypingUnion [NoneType, T])) = Inr (VType T)) \<and>
   (\<not> (k = TypingUnion \<and> (\<exists>U. U \<noteq> NoneType \<and> (as = [U, NoneType] \<or> as = [NoneType, U]))) \<longrightarrow>
      totype (VType (Alias k as)) = Inl TypeError) \<and>
   totype (VType (Starred a)) = Inl TypeError"
  using totype_other [of k as] totype_starred [of a]
  by (auto simp: totype_alias_two) (simp add: totype_def)

theorem totype_resolution_witness:
  "totype (VType (Class ''int'' False)) = Inr (VType (Class ''int'' False)) \<and>
   Class ''int'' False \<noteq> NoneType \<and>
   totype (VType (Alias TypingUnion [Class ''int'' False, NoneType])) = Inr (VType (Class ''int'' False)) \<and>
   totype (VType (Alias TypingUnion [NoneType, Class ''int'' False])) = Inr (VType (Class ''int'' False)) \<and>
   totype (VType (Alias (BuiltinGeneric ''list'' True) [Class ''int'' False])) = Inl TypeError \<and>
   totype (VType (Alias TypingUnion [Class ''int'' False, Class ''str'' True])) = Inl TypeError \<and>
   totype (VType (Alias TypesUnion [Class ''int'' False, NoneType])) = Inl TypeError"
proof -
  have ne: "Class ''int'' False \<noteq> NoneType" by (simp add: NoneType_def)
  have o1: "\<not> (BuiltinGeneric ''list'' True = TypingUnion \<and>
      (\<exists>U. U \<noteq> NoneType \<and> ([Class ''int'' False] = [U, NoneType] \<or> [Class ''int'' False] = [NoneType, U])))"
    by simp
  have o2: "\<not> (TypingUnion = TypingUnion \<and>
      (\<exists>U. U \<noteq> NoneType \<and> ([Class ''int'' False, Class ''str'' True] = [U, NoneType] \<or>
         [Class ''int'' False, Class ''str'' True] = [NoneType, U])))"
    by (simp add: NoneType_def)
  have o3: "\<not> (TypesUnion = TypingUnion \<and>
      (\<exists>U. U \<noteq> NoneType \<and> ([Class ''int'' False, NoneType] = [U, NoneType] \<or>
         [Class ''int'' False, NoneType] = [NoneType, U])))"
    by simp
  show ?thesis
    using ne o1 o2 o3
      totype_resolution [where c = "''int''" and z = False and T = "Class ''int'' False"
        and k = "BuiltinGeneric ''list'' True" and as = "[Class ''int'' False]"]
      totype_resolution [where c = "''int''" and z = False and T = "Class ''int'' False"
        and k = TypingUnion and as = "[Class ''int'' False, Class ''str'' True]"]
      totype_resolution [where c = "''int''" and z = False and T = "Class ''int'' False"
        and k = TypesUnion and as = "[Class ''int'' False, NoneType]"]
    by blast
qed

text \<open>
  Claim C5 as stated fails: \<^verbatim>\<open>int | None\<close> is a two-armed union of \<^verbatim>\<open>int\<close> and the null type,
  and \<^verbatim>\<open>totype\<close> raises \<open>TypeError\<close> for it instead of returning \<^verbatim>\<open>int\<close>.
\<close>

theorem totype_rejects_bar_union:
  "totype (VType (Alias TypesUnion [Class ''int'' False, Class ''NoneType'' False])) = Inl TypeError"
  by (simp add: totype_def)

section \<open>The format check and the pairing of optionality and default\<close>

lemma param_ok_bad_pairing:
  "dflt \<noteq> VNone \<Longrightarrow> opt \<noteq> VNone \<Longrightarrow> opt \<noteq> VBool True \<Longrightarrow>
   \<not> param_ok (VTuple [nm, ty, de, VTuple [opt, dflt]])"
  by (simp add: param_ok_def optionality_ok_def)

text \<open>
  Claim C9, amended. The shared format check rejects, with \<open>AnnotationFormatError\<close>, every
  record with a parameter entry whose optionality flag is \<^verbatim>\<open>False\<close> (or any value other than
  \<^verbatim>\<open>True\<close> and \<^verbatim>\<open>None\<close>) paired with a default that is not \<^verbatim>\<open>None\<close>. A flag that is \<^verbatim>\<open>None\<close>
  is exempt: the check accepts it with any default.
\<close>

theorem check_rejects_false_with_default:
  assumes "VTuple [nm, ty, de, VTuple [opt, dflt]] \<in> set ps"
    and "dflt \<noteq> VNone" and "opt \<noteq> VNone" and "opt \<noteq> VBool True"
    and "is_str_or_none s" and "is_str_or_none l"
  shows "check (VList [s, l, VList ps, rt]) = Inl AnnotationFormatError"
proof -
  have "\<not> list_all param_ok ps"
    using assms(1) param_ok_bad_pairing [OF assms(2,3,4)] by (auto simp: list_all_iff)
  with assms(5,6) show ?thesis
    by (simp add: check_def)
qed

text \<open>
  Claim C9 as stated fails: a default that is not \<^verbatim>\<open>None\<close>, paired with an optionality flag
  that is not \<^verbatim>\<open>True\<close> but \<^verbatim>\<open>None\<close>, passes the check.
\<close>

theorem check_accepts_none_with_default:
  "check (VList [VNone, VNone, VList [VTuple [VStr ''x'', VNone, VNone, VTuple [VNone, VInt 5]]], VNone])
     = Inr (VList [VNone, VNone, VList [VTuple [VStr ''x'', VNone, VNone, VTuple [VNone, VInt 5]]], VNone])"
  by (simp add: check_def is_str_or_none_def param_ok_def optionality_ok_def empty_cls_def)

theorem check_rejects_false_with_default_witness:
  "check (VList [VNone, VNone, VList [VTuple [VStr ''x'', VNone, VNone, VTuple [VBool False, VInt 5]]], VNone])
     = Inl AnnotationFormatError"
  using check_rejects_false_with_default [of "VStr ''x''" VNone VNone "VBool False" "VInt 5"
      "[VTuple [VStr ''x'', VNone, VNone, VTuple [VBool False, VInt 5]]]" VNone VNone VNone]
  by (simp add: is_str_or_none_def)

section \<open>The signature extractor's metadata\<close>

lemma signature_entry_eq:
  "signature_entry (x, y) =
     VTuple [VStr x, annotation y, VNone,
       if default_value y \<noteq> empty_cls then VTuple [VBool True, default_value y]
       else VTuple [VBool False, VNone]]"
  by (simp add: signature_entry_def py_eq_empty_cls)

text \<open>
  Claim C4. For a function whose signature can be read, the signature extractor returns
  metadata with no short and no long description and one parameter entry per declared
  parameter, in declaration order: the declared name, the declared annotation as it is,
  no description, and \<^verbatim>\<open>(True, default)\<close> when the parameter has a default (its default is
  not \<^verbatim>\<open>inspect._empty\<close>), else \<^verbatim>\<open>(False, None)\<close>.
\<close>

theorem signature_parse_metadata:
  assumes "signature_of func = Inr sg"
  shows "\<exists>ps ret. signature_parse func = Inr (VList [VNone, VNone, VList ps, ret]) \<and>
     length ps = length (parameters sg) \<and>
     (\<forall>i < length ps. ps ! i =
        VTuple [VStr (fst (parameters sg ! i)), annotation (snd (parameters sg ! i)), VNone,
          if default_value (snd (parameters sg ! i)) \<noteq> empty_cls
          then VTuple [VBool True, default_value (snd (parameters sg ! i))]
          else VTuple [VBool False, VNone]])"
proof -
  have "\<forall>i < length (parameters sg). map signature_entry (parameters sg) ! i =
        VTuple [VStr (fst (parameters sg ! i)), annotation (snd (parameters sg ! i)), VNone,
          if default_value (snd (parameters sg ! i)) \<noteq> empty_cls
          then VTuple [VBool True, default_value (snd (parameters sg ! i))]
          else VTuple [VBool False, VNone]]"
    using signature_entry_eq [of "fst p" "snd p" for p] by simp
  with assms show ?thesis
    by (simp add: signature_parse_def Let_def)
qed

theorem signature_parse_metadata_witness:
  "\<exists>ps ret.
     signature_parse \<lparr>signature_of = Inr \<lparr>parameters =
         [(''name'', \<lparr>annotation = VType (Class ''str'' True), default_value = empty_cls\<rparr>),
          (''loud'', \<lparr>annotation = VType (Class ''bool'' False), default_value = VBool False\<rparr>)],
         return_annotation = VType (Class ''str'' True)\<rparr>, doc = None\<rparr>
       = Inr (VList [VNone, VNone, VList ps, ret]) \<and>
     length ps = 2 \<and>
     ps ! 0 = VTuple [VStr ''name'', VType (Class ''str'' True), VNone, VTuple [VBool False, VNone]] \<and>
     ps ! 1 = VTuple [VStr ''loud'', VType (Class ''bool'' False), VNone, VTuple [VBool True, VBool False]]"
proof -
  let ?sg = "\<lparr>parameters =
         [(''name'', \<lparr>annotation = VType (Class ''str'' True), default_value = empty_cls\<rparr>),
          (''loud'', \<lparr>annotation = VType (Class ''bool'' False), default_value = VBool False\<rparr>)],
         return_annotation = VType (Class ''str'' True)\<rparr>"
  let ?f = "\<lparr>signature_of = Inr ?sg, doc = None\<rparr>"
  have sg: "signature_of ?f = Inr ?sg" by simp
  from signature_parse_metadata [OF sg] obtain ps ret where
    r: "signature_parse ?f = Inr (VList [VNone, VNone, VList ps, ret])" and
    l: "length ps = length (parameters ?sg)" and
    e: "\<forall>i < length ps. ps ! i =
        VTuple [VStr (fst (parameters ?sg ! i)), annotation (snd (parameters ?sg ! i)), VNone,
          if default_value (snd (parameters ?sg ! i)) \<noteq> empty_cls
          then VTuple [VBool True, default_value (snd (parameters ?sg ! i))]
          else VTuple [VBool False, VNone]]"
    by blast
  from l have l2: "length ps = 2" by simp
  from e l2 have e0: "ps ! 0 = VTuple [VStr ''name'', VType (Class ''str'' True), VNone, VTuple [VBool False, VNone]]"
    by simp
  from e l2 have "1 < length ps \<longrightarrow> ps ! 1 =
      VTuple [VStr ''loud'', VType (Class ''bool'' False), VNone, VTuple [VBool True, VBool False]]"
    by (simp add: empty_cls_def)
  with l2 have e1: "ps ! 1 =
      VTuple [VStr ''loud'', VType (Class ''bool'' False), VNone, VTuple [VBool True, VBool False]]"
    by simp
  from r l2 e0 e1 show ?thesis by blast
qed

section \<open>Declared arguments\<close>

lemma declare_flag:
  "truthy opt \<Longrightarrow> totype ty = Inr (VType bool_cls) \<Longrightarrow>
   declare_argument (VTuple [VStr name, ty, hlp, VTuple [opt, dflt]]) =
     Inr \<lparr>arg_name = ''--'' @ name, arg_type = None, arg_help = hlp,
          arg_default = Some (VBool False), arg_action = store_true\<rparr>"
  by (simp add: declare_argument_def dashes_def bool_cls_def)

lemma declare_option:
  "truthy opt \<Longrightarrow> totype ty = Inr ttype \<Longrightarrow> ttype \<noteq> VType bool_cls \<Longrightarrow>
   declare_argument (VTuple [VStr name, ty, hlp, VTuple [opt, dflt]]) =
     Inr \<lparr>arg_name = ''--'' @ name, arg_type = Some ttype, arg_help = hlp,
          arg_default = Some dflt, arg_action = store\<rparr>"
  by (simp add: declare_argument_def dashes_def bool_cls_def py_eq_VType_Class)

lemma declare_positional:
  "\<not> truthy opt \<Longrightarrow> totype ty = Inr ttype \<Longrightarrow>
   declare_argument (VTuple [VStr name, ty, hlp, VTuple [opt, dflt]]) =
     Inr \<lparr>arg_name = name, arg_type = Some ttype, arg_help = hlp,
          arg_default = None, arg_action = store\<rparr>"
  by (simp add: declare_argument_def positional_name_def)

text \<open>
  Claim C6. For a parameter entry whose declared type resolves, the command-tree builder
  declares: with a true optionality, a boolean type as a flag \<^verbatim>\<open>--name\<close> with the action
  \<^verbatim>\<open>store_true\<close> and the default \<^verbatim>\<open>False\<close>, whatever the recorded default is, and any other
  type as a flag \<^verbatim>\<open>--name\<close> storing one value of the resolved type, with the recorded
  default; with a false optionality, a positional \<^verbatim>\<open>name\<close> of the resolved type with no
  default.
\<close>

theorem declare_argument_by_optionality:
  assumes "totype ty = Inr ttype"
  shows "declare_argument (VTuple [VStr name, ty, hlp, VTuple [VBool opt, dflt]]) =
     Inr (if opt then
            (if ttype = VType bool_cls
             then \<lparr>arg_name = ''--'' @ name, arg_type = None, arg_help = hlp,
                   arg_default = Some (VBool False), arg_action = store_true\<rparr>
             else \<lparr>arg_name = ''--'' @ name, arg_type = Some ttype, arg_help = hlp,
                   arg_default = Some dflt, arg_action = store\<rparr>)
          else \<lparr>arg_name = name, arg_type = Some ttype, arg_help = hlp,
                arg_default = None, arg_action = store\<rparr>)"
  using assms declare_flag [of "VBool opt" ty name hlp dflt]
    declare_option [of "VBool opt" ty ttype name hlp dflt]
    declare_positional [of "VBool opt" ty ttype name hlp dflt]
  by auto

theorem declare_argument_by_optionality_witness:
  "declare_argument (VTuple [VStr ''loud'', VType (Class ''bool'' False), VNone, VTuple [VBool True, VBool True]]) =
     Inr \<lparr>arg_name = ''--loud'', arg_type = None, arg_help = VNone,
          arg_default = Some (VBool False), arg_action = store_true\<rparr> \<and>
   declare_argument (VTuple [VStr ''n'', VType (Alias TypingUnion [Class ''int'' False, NoneType]), VNone,
        VTuple [VBool True, VInt 3]]) =
     Inr \<lparr>arg_name = ''--n'', arg_type = Some (VType (Class ''int'' False)), arg_help = VNone,
          arg_default = Some (VInt 3), arg_action = store\<rparr> \<and>
   declare_argument (VTuple [VStr ''name'', VType (Class ''str'' True), VNone, VTuple [VBool False, VNone]]) =
     Inr \<lparr>arg_name = ''name'', arg_type = Some (VType (Class ''str'' True)), arg_help = VNone,
          arg_default = None, arg_action = store\<rparr>"
proof -
  have t1: "totype (VType (Class ''bool'' False)) = Inr (VType (Class ''bool'' False))"
    by (simp add: totype_def)
  have t2: "totype (VType (Alias TypingUnion [Class ''int'' False, NoneType])) = Inr (VType (Class ''int'' False))"
    by (simp add: totype_def NoneType_def)
  have t3: "totype (VType (Class ''str'' True)) = Inr (VType (Class ''str'' True))"
    by (simp add: totype_def)
  show ?thesis
    using declare_argument_by_optionality [OF t1, of "''loud''" VNone True "VBool True"]
      declare_argument_by_optionality [OF t2, of "''n''" VNone True "VInt 3"]
      declare_argument_by_optionality [OF t3, of "''name''" VNone False VNone]
    by (simp add: bool_cls_def)
qed

section \<open>Dispatch\<close>

lemma is_optional_entry: "is_optional (entry_of q) = Inr (entry_optional q)"
  by (cases q) (simp add: is_optional_def entry_of_def entry_optional_def)

lemma subscr_entry_0: "subscr (entry_of q) 0 = Inr (VStr (fst q))"
  by (cases q) (simp add: entry_of_def)

lemma positionals_entries:
  "\<forall>q \<in> set qs. args (fst q) \<noteq> None \<Longrightarrow>
   positionals args (map entry_of qs) =
     Inr (map (\<lambda>q. the (args (fst q))) (filter (\<lambda>q. \<not> entry_optional q) qs))"
proof (induction qs)
  case Nil
  then show ?case by simp
next
  case (Cons q qs)
  then obtain v where v: "args (fst q) = Some v" by auto
  from Cons have IH: "positionals args (map entry_of qs) =
     Inr (map (\<lambda>q. the (args (fst q))) (filter (\<lambda>q. \<not> entry_optional q) qs))" by simp
  show ?case
    by (simp add: is_optional_entry subscr_entry_0 getattr_def IH v)
qed

lemma update_fresh: "k \<notin> fst ` set al \<Longrightarrow> AList.update k v al = al @ [(k, v)]"
  by (induction al) auto

lemma keyword_args_entries:
  "\<forall>q \<in> set qs. args (fst q) \<noteq> None \<Longrightarrow> distinct (map fst qs) \<Longrightarrow>
   fst ` set ka \<inter> fst ` set qs = {} \<Longrightarrow>
   keyword_args args (map entry_of qs) ka =
     Inr (ka @ map (\<lambda>q. (fst q, the (args (fst q)))) (filter entry_optional qs))"
proof (induction qs arbitrary: ka)
  case Nil
  then show ?case by simp
next
  case (Cons q qs)
  then obtain v where v: "args (fst q) = Some v" by auto
  have fresh: "fst q \<notin> fst ` set ka" using Cons.prems(3) by auto
  show ?case
  proof (cases "entry_optional q")
    case True
    have disj: "fst ` set (AList.update (fst q) v ka) \<inter> fst ` set qs = {}"
      using Cons.prems(2,3) fresh by (auto simp: update_fresh)
    have "keyword_args args (map entry_of qs) (AList.update (fst q) v ka) =
      Inr (AList.update (fst q) v ka @ map (\<lambda>q. (fst q, the (args (fst q)))) (filter entry_optional qs))"
      using Cons.IH [OF _ _ disj] Cons.prems(1,2) by simp
    then show ?thesis
      using True by (simp add: is_optional_entry subscr_entry_0 getattr_def v update_fresh [OF fresh])
  next
    case False
    have disj: "fst ` set ka \<inter> fst ` set qs = {}" using Cons.prems(3) by auto
    have "keyword_args args (map entry_of qs) ka =
      Inr (ka @ map (\<lambda>q. (fst q, the (args (fst q)))) (filter entry_optional qs))"
      using Cons.IH [OF _ _ disj] Cons.prems(1,2) by simp
    then show ?thesis
      using False by (simp add: is_optional_entry)
  qed
qed

text \<open>
  Claim C7. \<^verbatim>\<open>run_args\<close> looks the parameters of the chosen function up under the parsed
  \<^verbatim>\<open>_fullname\<close>, reads the values of the required parameters from the parsed attributes, in
  declaration order, into the positional arguments, the values of the optional ones by
  name into the keyword arguments, calls the parsed \<^verbatim>\<open>_func\<close> with exactly these, and
  returns what the call returns.
\<close>

theorem run_args_dispatch:
  assumes "args ''_fullname'' = Some (VStr fullname)"
    and "funcs fullname = Some (VTuple [g, VList [sd, ld, VList (map entry_of qs), rt]])"
    and "args ''_func'' = Some (VCallable c)"
    and "\<forall>q \<in> set qs. args (fst q) \<noteq> None"
    and "distinct (map fst qs)"
  shows "run_args call funcs args =
     call c (map (\<lambda>q. the (args (fst q))) (filter (\<lambda>q. \<not> entry_optional q) qs))
            (map (\<lambda>q. (fst q, the (args (fst q)))) (filter entry_optional qs))"
proof -
  have dp: "dispatch_parameters funcs args = Inr (map entry_of qs)"
    using assms(1,2) by (simp add: dispatch_parameters_def getattr_def getitem_def)
  have ka: "keyword_args args (map entry_of qs) [] =
     Inr (map (\<lambda>q. (fst q, the (args (fst q)))) (filter entry_optional qs))"
    using keyword_args_entries [OF assms(4,5), of "[]"] by simp
  show ?thesis
    by (simp add: run_args_def dp positionals_entries [OF assms(4)] ka getattr_def assms(3))
qed

theorem run_args_dispatch_witness:
  "run_args (\<lambda>c a ka. Inr (VTuple [VInt (int c), VList a, VList (map (\<lambda>(k, v). VTuple [VStr k, v]) ka)]))
     [''pkg.tools.greet'' \<mapsto> VTuple [VCallable 7, VList [VNone, VNone,
        VList [VTuple [VStr ''name'', VType (Class ''str'' True), VNone, VTuple [VBool False, VNone]],
               VTuple [VStr ''loud'', VType (Class ''bool'' False), VNone, VTuple [VBool True, VBool False]]],
        VTuple [VNone, VType (Class ''str'' True), VNone]]]]
     [''_fullname'' \<mapsto> VStr ''pkg.tools.greet'', ''_func'' \<mapsto> VCallable 7,
      ''name'' \<mapsto> VStr ''Ada'', ''loud'' \<mapsto> VBool True]
   = Inr (VTuple [VInt 7, VList [VStr ''Ada''], VList [VTuple [VStr ''loud'', VBool True]]])"
proof -
  let ?qs = "[(''name'', VType (Class ''str'' True), VNone, False, VNone),
              (''loud'', VType (Class ''bool'' False), VNone, True, VBool False)]"
  let ?args = "[''_fullname'' \<mapsto> VStr ''pkg.tools.greet'', ''_func'' \<mapsto> VCallable 7,
      ''name'' \<mapsto> VStr ''Ada'', ''loud'' \<mapsto> VBool True]"
  let ?funcs = "[''pkg.tools.greet'' \<mapsto> VTuple [VCallable 7, VList [VNone, VNone,
        VList (map entry_of ?qs), VTuple [VNone, VType (Class ''str'' True), VNone]]]]"
  have a1: "?args ''_fullname'' = Some (VStr ''pkg.tools.greet'')" by simp
  have a2: "?funcs ''pkg.tools.greet'' = Some (VTuple [VCallable 7, VList [VNone, VNone,
        VList (map entry_of ?qs), VTuple [VNone, VType (Class ''str'' True), VNone]]])" by simp
  have a3: "?args ''_func'' = Some (VCallable 7)" by simp
  have a4: "\<forall>q \<in> set ?qs. ?args (fst q) \<noteq> None" by simp
  have a5: "distinct (map fst ?qs)" by simp
  show ?thesis
    using run_args_dispatch [where args = ?args and funcs = ?funcs and qs = ?qs, OF a1 a2 a3 a4 a5]
    by (simp add: entry_of_def entry_optional_def)
qed

section \<open>The documentation extractor and the section of results\<close>

lemma filter_raise_Inr:
  "filter_raise P xs = Inr ys \<Longrightarrow> ys = filter (\<lambda>x. P x = Inr True) xs"
proof (induction xs arbitrary: ys)
  case Nil
  then show ?case by simp
next
  case (Cons x xs)
  then show ?case
    by (auto split: sum.splits if_splits)
qed

lemma results_section_found:
  assumes "filter_raise (section_named ''results'') d = Inr rs"
    and "y \<in> set d" and "tagname y = ''section''" and "names y = ''results'' # ns"
  shows "rs \<noteq> []"
proof -
  have "section_named ''results'' y = Inr True"
    using assms(3,4) by (simp add: section_named_def)
  with assms(2) have "y \<in> set (filter (\<lambda>x. section_named ''results'' x = Inr True) d)"
    by simp
  with filter_raise_Inr [OF assms(1)] show ?thesis by (auto simp: filter_empty_conv)
qed

lemma docstring_parse_cases:
  assumes "doc func = Some s"
  shows "docstring_parse r func = Inr ans \<Longrightarrow>
     filter_raise (section_named ''results'') (r s) = Inr [] \<and> (\<exists>a b c. ans = VList [a, b, c, VNone])"
  using assms
  by (auto simp: docstring_parse_def Let_def split: sum.splits if_splits)

text \<open>
  Claim C8. When the document of a function's documentation comment has a section named
  \<^verbatim>\<open>results\<close>, the documentation extractor raises, whatever else the comment holds; and
  whenever the extractor returns, the return component of its metadata is \<^verbatim>\<open>None\<close>.
\<close>

theorem docstring_results_section_raises:
  "(doc func = Some s \<and> y \<in> set (r s) \<and> tagname y = ''section'' \<and> names y = ''results'' # ns
      \<longrightarrow> (\<exists>e. docstring_parse r func = Inl e)) \<and>
   (docstring_parse r func = Inr ans \<longrightarrow> (\<exists>a b c. ans = VList [a, b, c, VNone]))"
proof (intro conjI impI)
  assume h: "doc func = Some s \<and> y \<in> set (r s) \<and> tagname y = ''section'' \<and> names y = ''results'' # ns"
  show "\<exists>e. docstring_parse r func = Inl e"
  proof (cases "docstring_parse r func")
    case (Inl e)
    then show ?thesis by blast
  next
    case (Inr ans)
    from docstring_parse_cases [OF _ Inr, of s] h
    have "filter_raise (section_named ''results'') (r s) = Inr []" by simp
    from results_section_found [OF this] h show ?thesis by blast
  qed
next
  assume a: "docstring_parse r func = Inr ans"
  show "\<exists>a b c. ans = VList [a, b, c, VNone]"
  proof (cases "doc func")
    case None
    with a show ?thesis by (simp add: docstring_parse_def)
  next
    case (Some s)
    from docstring_parse_cases [OF Some a] show ?thesis by blast
  qed
qed

theorem docstring_results_section_raises_witness:
  "(\<exists>e. docstring_parse (\<lambda>s. [Node ''section'' [''results''] ''Results'' []])
          \<lparr>signature_of = Inl TypeError, doc = Some ''Results''\<rparr> = Inl e) \<and>
   docstring_parse (\<lambda>s. [Node ''paragraph'' [] ''Adds one.'' []])
          \<lparr>signature_of = Inl TypeError, doc = Some ''Adds one.''\<rparr>
     = Inr (VList [VStr ''Adds one.'', VNone, VNone, VNone]) \<and>
   (\<exists>a b c. VList [VStr ''Adds one.'', VNone, VNone, VNone] = VList [a, b, c, VNone])"
proof -
  let ?r1 = "\<lambda>s::string. [Node ''section'' [''results''] ''Results'' []]"
  let ?f1 = "\<lparr>signature_of = Inl TypeError, doc = Some ''Results''\<rparr>"
  let ?r2 = "\<lambda>s::string. [Node ''paragraph'' [] ''Adds one.'' []]"
  let ?f2 = "\<lparr>signature_of = Inl TypeError, doc = Some ''Adds one.''\<rparr>"
  have h1: "doc ?f1 = Some ''Results'' \<and> Node ''section'' [''results''] ''Results'' [] \<in> set (?r1 ''Results'') \<and>
      tagname (Node ''section'' [''results''] ''Results'' []) = ''section'' \<and>
      names (Node ''section'' [''results''] ''Results'' []) = ''results'' # []"
    by simp
  have e2: "docstring_parse ?r2 ?f2 = Inr (VList [VStr ''Adds one.'', VNone, VNone, VNone])"
    by code_simp
  from h1 docstring_results_section_raises [where r = ?r1 and func = ?f1 and y = "Node ''section'' [''results''] ''Results'' []"
      and ns = "[]" and s = "''Results''"]
  have c1: "\<exists>e. docstring_parse ?r1 ?f1 = Inl e" by blast
  from e2 docstring_results_section_raises [where r = ?r2 and func = ?f2
      and ans = "VList [VStr ''Adds one.'', VNone, VNone, VNone]"]
  have c2: "\<exists>a b c. VList [VStr ''Adds one.'', VNone, VNone, VNone] = VList [a, b, c, VNone]" by blast
  from c1 e2 c2 show ?thesis by blast
qed

section \<open>Functions without a documentation string\<close>

lemma docstring_parse_no_doc: "doc func = None \<Longrightarrow> docstring_parse r func = Inl TypeError"
  by (simp add: docstring_parse_def)

lemma parse_docstring_no_doc: "doc func = None \<Longrightarrow> parse ex n DocstringParser func = Inl TypeError"
  by (simp add: docstring_parse_no_doc)

lemma parse_pipeline_no_doc:
  assumes "doc func = None"
  shows "parse ex n parser_func func =
     (case parse ex n SignatureParser func of Inl e \<Rightarrow> Inl e | Inr a \<Rightarrow> Inl TypeError)"
  using parse_docstring_no_doc [OF assms, of ex n]
  by (simp add: parser_func_def split: sum.splits)

lemma get_functions_head:
  "parse ex n p y = Inl e \<Longrightarrow>
   get_functions ex n p errskip ((x, y) # rest) =
     (if caught errskip e then get_functions ex n p errskip rest else Inl e)"
  by (auto simp: get_functions_def caught_def)

text \<open>
  Claim C10. For a function without a documentation string, the documentation extractor
  raises (\<open>TypeError\<close>, from \<^verbatim>\<open>dedent(None)\<close>) and returns no metadata. So the parser of
  \<^verbatim>\<open>docstringrunner\<close>, the signature extractor followed by the documentation extractor,
  raises for it: the error of the signature extractor if that one fails, else the
  \<open>TypeError\<close>. With an empty \<^verbatim>\<open>errskip\<close> the discovery of any list of functions that
  holds such a function fails; with a skip-list that catches the error the function is
  left out, and otherwise the error propagates.
\<close>

theorem undocumented_function_fails:
  assumes "doc func = None"
  shows "docstring_parse r func = Inl TypeError \<and>
     (\<exists>e. parse ex n parser_func func = Inl e \<and>
        (\<forall>a. parse ex n SignatureParser func = Inr a \<longrightarrow> e = TypeError) \<and>
        get_functions ex n parser_func errskip ((x, func) # rest) =
          (if caught errskip e then get_functions ex n parser_func errskip rest else Inl e)) \<and>
     ((x, func) \<in> set fs \<longrightarrow> (\<exists>e. get_functions ex n parser_func [] fs = Inl e))"
proof (intro conjI)
  show "docstring_parse r func = Inl TypeError"
    using assms by (rule docstring_parse_no_doc)
next
  obtain e where e: "parse ex n parser_func func = Inl e"
    and t: "\<forall>a. parse ex n SignatureParser func = Inr a \<longrightarrow> e = TypeError"
    using parse_pipeline_no_doc [OF assms, of ex n]
    by (cases "parse ex n SignatureParser func") auto
  from get_functions_head [OF e] e t
  show "\<exists>e. parse ex n parser_func func = Inl e \<and>
        (\<forall>a. parse ex n SignatureParser func = Inr a \<longrightarrow> e = TypeError) \<and>
        get_functions ex n parser_func errskip ((x, func) # rest) =
          (if caught errskip e then get_functions ex n parser_func errskip rest else Inl e)"
    by blast
next
  show "(x, func) \<in> set fs \<longrightarrow> (\<exists>e. get_functions ex n parser_func [] fs = Inl e)"
  proof
    assume m: "(x, func) \<in> set fs"
    obtain e where e: "parse ex n parser_func func = Inl e"
      using parse_pipeline_no_doc [OF assms, of ex n]
      by (cases "parse ex n SignatureParser func") auto
    have "(\<lambda>(x, y). case parse ex n parser_func y of Inl e \<Rightarrow> Inl e | Inr m \<Rightarrow> Inr (x, y, m)) (x, func) = Inl e"
      using e by simp
    from sequence_Inl [where f = "\<lambda>(x, y). case parse ex n parser_func y of Inl e \<Rightarrow> Inl e | Inr m \<Rightarrow> Inr (x, y, m)", OF m this] show "\<exists>e. get_functions ex n parser_func [] fs = Inl e"
      by (simp add: get_functions_def)
  qed
qed

theorem undocumented_function_fails_witness:
  "docstring_parse (\<lambda>s. [])
       \<lparr>signature_of = Inr \<lparr>parameters = [], return_annotation = VNone\<rparr>, doc = None\<rparr> = Inl TypeError \<and>
   parse \<lparr>rst = (\<lambda>s. []), str_of = (\<lambda>rs. [])\<rparr> 3 parser_func
       \<lparr>signature_of = Inr \<lparr>parameters = [], return_annotation = VNone\<rparr>, doc = None\<rparr> = Inl TypeError \<and>
   get_functions \<lparr>rst = (\<lambda>s. []), str_of = (\<lambda>rs. [])\<rparr> 3 parser_func []
       [(''pkg.f'', \<lparr>signature_of = Inr \<lparr>parameters = [], return_annotation = VNone\<rparr>, doc = None\<rparr>)]
     = Inl TypeError \<and>
   get_functions \<lparr>rst = (\<lambda>s. []), str_of = (\<lambda>rs. [])\<rparr> 3 parser_func [CTypeError]
       [(''pkg.f'', \<lparr>signature_of = Inr \<lparr>parameters = [], return_annotation = VNone\<rparr>, doc = None\<rparr>)]
     = Inr []"
proof -
  let ?ex = "\<lparr>rst = (\<lambda>s::string. []), str_of = (\<lambda>rs::pyval list. [])\<rparr>"
  let ?f = "\<lparr>signature_of = Inr \<lparr>parameters = [], return_annotation = VNone\<rparr>, doc = None\<rparr>"
  have d: "doc ?f = None" by simp
  have sg: "parse ?ex 3 SignatureParser ?f = Inr (VList [VNone, VNone, VList [], VNone])"
    by code_simp
  have rest: "\<And>sk. get_functions ?ex 3 parser_func (CTypeError # sk) [] = Inr []"
    by (simp add: get_functions_def)
  have c1: "caught [CTypeError] TypeError" and c2: "\<not> caught [] TypeError"
    by (simp_all add: caught_def)
  from undocumented_function_fails [OF d, where r = "\<lambda>s. []" and ex = ?ex and n = 3
      and errskip = "[]" and x = "''pkg.f''" and rest = "[]" and fs = "[]"] sg c2
  have a: "docstring_parse (\<lambda>s. []) ?f = Inl TypeError"
    and b: "parse ?ex 3 parser_func ?f = Inl TypeError"
    and c: "get_functions ?ex 3 parser_func [] [(''pkg.f'', ?f)] = Inl TypeError"
    by auto
  from undocumented_function_fails [OF d, where r = "\<lambda>s. []" and ex = ?ex and n = 3
      and errskip = "[CTypeError]" and x = "''pkg.f''" and rest = "[]" and fs = "[]"] sg c1 rest
  have e: "get_functions ?ex 3 parser_func [CTypeError] [(''pkg.f'', ?f)] = Inr []"
    by auto
  from a b c e show ?thesis by blast
qed

section \<open>The check of the return annotation\<close>

lemma signature_check_never_unannotated:
  "signature_parse func = Inr ans \<Longrightarrow> check ans \<noteq> Inl UnAnnotatedError"
proof -
  assume a: "signature_parse func = Inr ans"
  then obtain sg where sg: "signature_of func = Inr sg"
    by (auto simp: signature_parse_def split: sum.splits error.splits if_splits)
  define t3 where "t3 = (if return_annotation sg = VNone \<or> type_of (return_annotation sg) = TTuple
                       \<or> type_of (return_annotation sg) = TList
                    then return_annotation sg
                    else VTuple [VNone, return_annotation sg, VNone])"
  have ans: "ans = VList [VNone, VNone, VList (map signature_entry (parameters sg)), t3]"
    using a sg by (simp add: signature_parse_def t3_def)
  have "t3 \<noteq> empty_cls"
    by (auto simp: t3_def empty_cls_def)
  then have "\<not> py_eq t3 empty_cls"
    by (simp add: py_eq_empty_cls)
  then show "check ans \<noteq> Inl UnAnnotatedError"
    by (auto simp: ans check_def Let_def split: sum.splits if_splits dest: py_iter_error)
qed

text \<open>
  Claim C1 against the code. A function \<^verbatim>\<open>def f(x: int)\<close> with a one-line documentation
  comment and no return annotation: the signature extractor wraps the missing annotation,
  \<^verbatim>\<open>inspect._empty\<close>, into \<^verbatim>\<open>(None, _empty, None)\<close>, which the test \<^verbatim>\<open>ans[3]==_empty\<close> of the
  check does not match. The parser of \<^verbatim>\<open>docstringrunner\<close> returns the merged metadata, and
  no \<open>UnAnnotatedError\<close> is raised.
\<close>

theorem unannotated_return_passes_check:
  "parse \<lparr>rst = (\<lambda>s. [Node ''paragraph'' [] ''Adds one.'' []]), str_of = (\<lambda>rs. [])\<rparr> 3 parser_func
     \<lparr>signature_of = Inr \<lparr>parameters =
         [(''x'', \<lparr>annotation = VType (Class ''int'' False), default_value = empty_cls\<rparr>)],
         return_annotation = empty_cls\<rparr>, doc = Some ''Adds one.''\<rparr>
   = Inr (VList [VStr ''Adds one.'', VNone,
        VList [VTuple [VStr ''x'', VType (Class ''int'' False), VNone, VTuple [VBool False, VNone]]],
        VTuple [VNone, empty_cls, VNone]])"
  by code_simp

section \<open>Conflicts in the merger\<close>




















text \<open>
  Two unequal strings of the same length are outside the amended claim. \<^verbatim>\<open>zip\<close> pairs their
  characters, and the pair of two unequal characters is merged by a call on the same
  pair again, until the interpreter stops the recursion.
\<close>

lemma union_unequal_chars:
  "c \<noteq> d \<Longrightarrow> union R n [VStr [c], VStr [d]] = Inl RecursionError"
proof (induction n)
  case 0
  then show ?case by simp
next
  case (Suc n)
  then show ?case by (simp add: py_zip_def)
qed

end
